theory Spec2Isabelle
  imports Complex_Main
begin

section \<open>The stock pipeline: fetch, parse, upsert\<close>

text \<open>
  A shallow embedding of \<^verbatim>\<open>scripts/fetch_and_store.py\<close>. Python exceptions are values of
  the type \<open>error\<close>; a function that may raise returns \<open>error + 'a\<close> with \<open>Inl\<close> the
  exception. Strings are lists of 8-bit characters, so the model covers ASCII text; the
  Unicode digits and Unicode whitespace that Python's \<^verbatim>\<open>float\<close> and \<^verbatim>\<open>strptime\<close> also accept
  are outside it.
\<close>

subsection \<open>Exceptions\<close>

datatype dberror =
    CardinalityViolation
  | UndefinedTable
  | InterfaceError
  | OperationalError
  | DataError

datatype error =
    RuntimeError string
  | KeyError string
  | ValueError
  | TypeError
  | OverflowError
  | AttributeError
  | Timeout
  | RequestException
  | HTTPError nat
  | JSONDecodeError
  | Psycopg2Error dberror

definition bind_err :: "error + 'a \<Rightarrow> ('a \<Rightarrow> error + 'b) \<Rightarrow> error + 'b" where
  "bind_err r f = (case r of Inl e \<Rightarrow> Inl e | Inr x \<Rightarrow> f x)"

subsection \<open>Configuration lookup\<close>

text \<open>
  \<^verbatim>\<open>value = os.getenv(name, default)\<close>, then
  \<^verbatim>\<open>if required and not value: raise RuntimeError(...)\<close>. Python's \<^verbatim>\<open>not value\<close> holds
  for \<^verbatim>\<open>None\<close> and for the empty string.
\<close>

definition getenv :: "(string \<rightharpoonup> string) \<Rightarrow> string \<Rightarrow> string option \<Rightarrow> string option" where
  "getenv env name dflt = (case env name of Some v \<Rightarrow> Some v | None \<Rightarrow> dflt)"

definition falsy :: "string option \<Rightarrow> bool" where
  "falsy v = (case v of None \<Rightarrow> True | Some s \<Rightarrow> s = [])"

definition not_set_message :: "string \<Rightarrow> string" where
  "not_set_message name =
     ''Required environment variable '' @ [CHR 0x27] @ name @ [CHR 0x27] @ '' is not set''"

definition get_env_var ::
  "(string \<rightharpoonup> string) \<Rightarrow> string \<Rightarrow> string option \<Rightarrow> bool \<Rightarrow> error + string option" where
  "get_env_var env name dflt required =
     (let v = getenv env name dflt in
      if required \<and> falsy v then Inl (RuntimeError (not_set_message name)) else Inr v)"

subsection \<open>Python floats\<close>

text \<open>
  A float is an IEEE 754 binary64 value: a finite one is kept as the rational it denotes
  (the sign of zero is dropped), beside the two infinities and NaN.
  \<open>round_double neg a b\<close> is the float nearest to the fraction \<open>a / b\<close> of a
  non-negative \<open>a\<close> and a positive \<open>b\<close> (negated when
  \<open>neg\<close>), as the correctly rounded conversions of CPython give it: round-to-nearest,
  ties-to-even, 53 significant bits, least exponent \<open>-1022\<close>, overflow to infinity from
  \<open>2 ^ 1024\<close>.
\<close>

datatype pyfloat = Finite rat | PosInf | NegInf | NaN

definition pow2 :: "int \<Rightarrow> rat" where
  "pow2 k = (if 0 \<le> k then 2 ^ nat k else 1 / 2 ^ nat (- k))"

function bit_length :: "int \<Rightarrow> nat" where
  "bit_length n = (if n \<le> 0 then 0 else Suc (bit_length (n div 2)))"
  by pat_completeness auto
termination
  by (relation "measure nat") auto

declare bit_length.simps [simp del]

text \<open>\<open>scale2 a b s\<close> is the fraction \<open>(a / b) / 2 ^ s\<close>, kept in integers.\<close>

definition scale2 :: "int \<Rightarrow> int \<Rightarrow> int \<Rightarrow> int \<times> int" where
  "scale2 a b s = (if 0 \<le> s then (a, b * 2 ^ nat s) else (a * 2 ^ nat (- s), b))"

definition floor_log2 :: "int \<Rightarrow> int \<Rightarrow> int" where
  "floor_log2 a b =
     (let k = int (bit_length a) - int (bit_length b);
          (n, d) = scale2 a b k
      in if d \<le> n then k else k - 1)"

definition round_half_even :: "int \<Rightarrow> int \<Rightarrow> int" where
  "round_half_even n d =
     (let f = n div d; r = n mod d
      in if 2 * r < d then f
         else if d < 2 * r then f + 1
         else if even f then f else f + 1)"

definition round_pos :: "int \<Rightarrow> int \<Rightarrow> rat" where
  "round_pos a b =
     (let s = max (floor_log2 a b) (- 1022) - 52;
          (n, d) = scale2 a b s
      in of_int (round_half_even n d) * pow2 s)"

definition round_double :: "bool \<Rightarrow> int \<Rightarrow> int \<Rightarrow> pyfloat" where
  "round_double neg a b =
     (if a = 0 then Finite 0
      else (let r = round_pos a b
            in if pow2 1024 \<le> r then (if neg then NegInf else PosInf)
               else Finite (if neg then - r else r)))"

subsection \<open>\<^verbatim>\<open>float(s)\<close> on a string\<close>

definition is_space :: "char \<Rightarrow> bool" where
  "is_space c = (c \<in> set [CHR 0x20, CHR 0x09, CHR 0x0A, CHR 0x0B, CHR 0x0C, CHR 0x0D])"

definition is_digit :: "char \<Rightarrow> bool" where
  "is_digit c = (48 \<le> (of_char c :: nat) \<and> (of_char c :: nat) \<le> 57)"

definition digit_val :: "char \<Rightarrow> int" where
  "digit_val c = of_char c - 48"

definition digits_val :: "string \<Rightarrow> int" where
  "digits_val ds = foldl (\<lambda>acc c. 10 * acc + digit_val c) 0 ds"

definition strip :: "string \<Rightarrow> string" where
  "strip s = rev (dropWhile is_space (rev (dropWhile is_space s)))"

definition lower :: "char \<Rightarrow> char" where
  "lower c = (if 65 \<le> (of_char c :: nat) \<and> (of_char c :: nat) \<le> 90
              then char_of (of_char c + (32 :: nat)) else c)"

text \<open>
  An underscore is accepted only between two digits; the argument \<open>prev\<close> is the
  character before the one being read.
\<close>

fun remove_underscores :: "char \<Rightarrow> string \<Rightarrow> string option" where
  "remove_underscores prev [] = (if prev = CHR ''_'' then None else Some [])"
| "remove_underscores prev (c # cs) =
     (if c = CHR ''_'' then
        (if is_digit prev then remove_underscores c cs else None)
      else if prev = CHR ''_'' \<and> \<not> is_digit c then None
      else map_option ((#) c) (remove_underscores c cs))"

definition split_sign :: "string \<Rightarrow> bool \<times> string" where
  "split_sign s =
     (case s of
        [] \<Rightarrow> (False, [])
      | c # cs \<Rightarrow> if c = CHR ''-'' then (True, cs)
                  else if c = CHR ''+'' then (False, cs)
                  else (False, s))"

text \<open>The exponent part: empty, or \<^verbatim>\<open>e\<close>/\<^verbatim>\<open>E\<close>, an optional sign and at least one digit.\<close>

definition parse_exponent :: "string \<Rightarrow> int option" where
  "parse_exponent s =
     (case s of
        [] \<Rightarrow> Some 0
      | c # cs \<Rightarrow>
          if c = CHR ''e'' \<or> c = CHR ''E'' then
            (let (neg, ds) = split_sign cs
             in if ds \<noteq> [] \<and> list_all is_digit ds
                then Some (if neg then - digits_val ds else digits_val ds)
                else None)
          else None)"

text \<open>
  A decimal numeral: digits, an optional point and more digits, with at least one digit
  in all, then the exponent part. The result \<open>(n, k)\<close> stands for \<open>n * 10 ^ k\<close>.
\<close>

definition parse_decimal :: "string \<Rightarrow> (int \<times> int) option" where
  "parse_decimal s =
     (let ip = takeWhile is_digit s;
          r1 = dropWhile is_digit s;
          (fp, r2) = (case r1 of
                        [] \<Rightarrow> ([], [])
                      | c # cs \<Rightarrow> if c = CHR ''.''
                                  then (takeWhile is_digit cs, dropWhile is_digit cs)
                                  else ([], r1))
      in if ip @ fp = [] then None
         else (case parse_exponent r2 of
                 None \<Rightarrow> None
               | Some ex \<Rightarrow> Some (digits_val (ip @ fp), ex - int (length fp))))"

definition round_decimal :: "bool \<Rightarrow> int \<Rightarrow> int \<Rightarrow> pyfloat" where
  "round_decimal neg n k =
     (if 0 \<le> k then round_double neg (n * 10 ^ nat k) 1
      else round_double neg n (10 ^ nat (- k)))"

definition float_of_string :: "string \<Rightarrow> error + pyfloat" where
  "float_of_string s0 =
     (case remove_underscores (CHR 0x00) (strip s0) of
        None \<Rightarrow> Inl ValueError
      | Some s \<Rightarrow>
          (let (neg, body) = split_sign s;
               lb = map lower body
           in if lb = ''inf'' \<or> lb = ''infinity'' then Inr (if neg then NegInf else PosInf)
              else if lb = ''nan'' then Inr NaN
              else (case parse_decimal body of
                      None \<Rightarrow> Inl ValueError
                    | Some (n, k) \<Rightarrow> Inr (round_decimal neg n k))))"

text \<open>\<^verbatim>\<open>int(x)\<close> on a float truncates toward zero and raises on infinities and NaN.\<close>

definition trunc_toward_zero :: "rat \<Rightarrow> int" where
  "trunc_toward_zero q = (if 0 \<le> q then \<lfloor>q\<rfloor> else \<lceil>q\<rceil>)"

definition int_of_float :: "pyfloat \<Rightarrow> error + int" where
  "int_of_float x =
     (case x of
        Finite q \<Rightarrow> Inr (trunc_toward_zero q)
      | PosInf \<Rightarrow> Inl OverflowError
      | NegInf \<Rightarrow> Inl OverflowError
      | NaN \<Rightarrow> Inl ValueError)"

subsection \<open>\<^verbatim>\<open>datetime.strptime(date_str, "%Y-%m-%d").date()\<close>\<close>

text \<open>
  \<^verbatim>\<open>strptime\<close> compiles the format to the regular expression
  \<^verbatim>\<open>(?P<Y>\d\d\d\d)-(?P<m>1[0-2]|0[1-9]|[1-9])-(?P<d>3[0-1]|[1-2]\d|0[1-9]|[1-9]| [1-9])\<close>,
  matches it at the start of the string, raises \<^verbatim>\<open>ValueError\<close> when there is no match or
  when text remains after the match, and then builds the date, which raises
  \<^verbatim>\<open>ValueError\<close> for year 0 and for a day the month does not have. The alternatives of a
  group are tried in the order written.
\<close>

datatype date = Date (year: int) (month: int) (day: int)

definition is_leap :: "int \<Rightarrow> bool" where
  "is_leap y = (y mod 4 = 0 \<and> (y mod 100 \<noteq> 0 \<or> y mod 400 = 0))"

definition days_in_month :: "int \<Rightarrow> int \<Rightarrow> int" where
  "days_in_month y m =
     (if m = 2 then (if is_leap y then 29 else 28)
      else if m = 4 \<or> m = 6 \<or> m = 9 \<or> m = 11 then 30
      else 31)"

definition month_alternatives :: "string \<Rightarrow> (int \<times> string) list" where
  "month_alternatives s =
     (case s of
        c1 # c2 # r \<Rightarrow>
          (if c1 = CHR ''1'' \<and> c2 \<in> set ''012'' then [(10 + digit_val c2, r)] else []) @
          (if c1 = CHR ''0'' \<and> c2 \<in> set ''123456789'' then [(digit_val c2, r)] else [])
      | _ \<Rightarrow> []) @
     (case s of
        c # r \<Rightarrow> if c \<in> set ''123456789'' then [(digit_val c, r)] else []
      | [] \<Rightarrow> [])"

definition day_alternatives :: "string \<Rightarrow> (int \<times> string) list" where
  "day_alternatives s =
     (case s of
        c1 # c2 # r \<Rightarrow>
          (if c1 = CHR ''3'' \<and> c2 \<in> set ''01'' then [(30 + digit_val c2, r)] else []) @
          (if c1 \<in> set ''12'' \<and> is_digit c2 then [(10 * digit_val c1 + digit_val c2, r)] else []) @
          (if c1 = CHR ''0'' \<and> c2 \<in> set ''123456789'' then [(digit_val c2, r)] else [])
      | _ \<Rightarrow> []) @
     (case s of
        c # r \<Rightarrow> if c \<in> set ''123456789'' then [(digit_val c, r)] else []
      | [] \<Rightarrow> []) @
     (case s of
        c1 # c2 # r \<Rightarrow>
          if c1 = CHR '' '' \<and> c2 \<in> set ''123456789'' then [(digit_val c2, r)] else []
      | _ \<Rightarrow> [])"

text \<open>
  The month, the dash after it and the day: the first month alternative after which the
  rest of the expression matches, with the first day alternative that matches there.
\<close>

definition month_day_match :: "string \<Rightarrow> (int \<times> int \<times> string) option" where
  "month_day_match s =
     (case concat (map
             (\<lambda>(m, r). case r of
                          [] \<Rightarrow> []
                        | c # r' \<Rightarrow>
                            if c = CHR ''-'' then
                              (case day_alternatives r' of
                                 [] \<Rightarrow> []
                               | (d, rest) # _ \<Rightarrow> [(m, d, rest)])
                            else [])
             (month_alternatives s)) of
        [] \<Rightarrow> None
      | x # _ \<Rightarrow> Some x)"

definition strptime :: "string \<Rightarrow> error + date" where
  "strptime s =
     (case s of
        y1 # y2 # y3 # y4 # c # r \<Rightarrow>
          if list_all is_digit [y1, y2, y3, y4] \<and> c = CHR ''-'' then
            (case month_day_match r of
               None \<Rightarrow> Inl ValueError
             | Some (m, d, rest) \<Rightarrow>
                 if rest \<noteq> [] then Inl ValueError
                 else (let y = digits_val [y1, y2, y3, y4]
                       in if y < 1 \<or> days_in_month y m < d then Inl ValueError
                          else Inr (Date y m d)))
          else Inl ValueError
      | _ \<Rightarrow> Inl ValueError)"

subsection \<open>Decoded JSON and the events of a run\<close>

text \<open>
  What \<^verbatim>\<open>resp.json()\<close> returns: a dict is an association list in the dict's iteration
  order, read with \<open>map_of\<close>.
\<close>

datatype json =
    JNull
  | JBool bool
  | JInt int
  | JFloat pyfloat
  | JString string
  | JArray "json list"
  | JObject "(string \<times> json) list"

text \<open>
  A row is the tuple \<^verbatim>\<open>(symbol, trade_date, open, high, low, close, volume)\<close> of
  \<^verbatim>\<open>parse_time_series\<close>.
\<close>

type_synonym row = "string \<times> date \<times> pyfloat \<times> pyfloat \<times> pyfloat \<times> pyfloat \<times> int"

datatype level = INFO | WARNING | ERROR

datatype log_arg = ArgStr string | ArgErr error | ArgInt int

datatype statement = CreateTable | InsertRows "row list"

text \<open>
  What a run does to the outside, in order: a call of \<^verbatim>\<open>logging\<close> with its format string
  and arguments, the HTTP request with its URL, parameters and timeout in seconds, and the
  calls on the database connection.
\<close>

datatype event =
    Log level string "log_arg list"
  | HttpGet string "(string \<times> string) list" nat
  | DbConnect "(string \<times> string option) list"
  | DbExecute statement
  | DbCommit
  | DbRollback
  | DbClose

subsection \<open>\<^verbatim>\<open>parse_time_series\<close>\<close>

text \<open>\<^verbatim>\<open>d[key]\<close> with a string key: only a dict can be read so.\<close>

definition getitem :: "json \<Rightarrow> string \<Rightarrow> error + json" where
  "getitem d k =
     (case d of
        JObject kvs \<Rightarrow> (case map_of kvs k of None \<Rightarrow> Inl (KeyError k) | Some v \<Rightarrow> Inr v)
      | _ \<Rightarrow> Inl TypeError)"

text \<open>
  \<^verbatim>\<open>float(x)\<close> on a decoded JSON value: a string is parsed, a number is converted (an
  integer beyond the float range raises \<^verbatim>\<open>OverflowError\<close>), anything else is a
  \<^verbatim>\<open>TypeError\<close>.
\<close>

definition py_float :: "json \<Rightarrow> error + pyfloat" where
  "py_float v =
     (case v of
        JString s \<Rightarrow> float_of_string s
      | JInt n \<Rightarrow>
          (case round_double (n < 0) \<bar>n\<bar> 1 of
             PosInf \<Rightarrow> Inl OverflowError
           | NegInf \<Rightarrow> Inl OverflowError
           | x \<Rightarrow> Inr x)
      | JFloat x \<Rightarrow> Inr x
      | JBool b \<Rightarrow> Inr (Finite (if b then 1 else 0))
      | _ \<Rightarrow> Inl TypeError)"

definition float_field :: "json \<Rightarrow> string \<Rightarrow> error + pyfloat" where
  "float_field daily_data k = bind_err (getitem daily_data k) py_float"

text \<open>\<^verbatim>\<open>int(float(daily_data["5. volume"]))\<close>.\<close>

definition volume_field :: "json \<Rightarrow> error + int" where
  "volume_field daily_data = bind_err (float_field daily_data ''5. volume'') int_of_float"

text \<open>The body of the \<^verbatim>\<open>try\<close>, for one entry, in the order the source evaluates it.\<close>

definition parse_entry :: "string \<Rightarrow> string \<Rightarrow> json \<Rightarrow> error + row" where
  "parse_entry symbol date_str daily_data =
     bind_err (strptime date_str) (\<lambda>trade_date.
     bind_err (float_field daily_data ''1. open'') (\<lambda>open_price.
     bind_err (float_field daily_data ''2. high'') (\<lambda>high_price.
     bind_err (float_field daily_data ''3. low'') (\<lambda>low_price.
     bind_err (float_field daily_data ''4. close'') (\<lambda>close_price.
     bind_err (volume_field daily_data) (\<lambda>volume.
     Inr (symbol, trade_date, open_price, high_price, low_price, close_price, volume)))))))"

text \<open>\<^verbatim>\<open>except (KeyError, ValueError)\<close>; a JSON decoding error is a \<^verbatim>\<open>ValueError\<close> too.\<close>

definition caught :: "error \<Rightarrow> bool" where
  "caught e =
     (case e of KeyError _ \<Rightarrow> True | ValueError \<Rightarrow> True | JSONDecodeError \<Rightarrow> True | _ \<Rightarrow> False)"

definition skip_warning :: "string \<Rightarrow> error \<Rightarrow> event" where
  "skip_warning date_str e =
     Log WARNING ''Skipping date %s due to parsing error: %s'' [ArgStr date_str, ArgErr e]"

fun parse_loop ::
  "string \<Rightarrow> (string \<times> json) list \<Rightarrow> row list \<Rightarrow> event list \<Rightarrow> event list \<times> (error + row list)"
  where
  "parse_loop symbol [] rows evs = (evs, Inr rows)"
| "parse_loop symbol ((date_str, daily_data) # rest) rows evs =
     (case parse_entry symbol date_str daily_data of
        Inr r \<Rightarrow> parse_loop symbol rest (rows @ [r]) evs
      | Inl e \<Rightarrow>
          if caught e then parse_loop symbol rest rows (evs @ [skip_warning date_str e])
          else (evs, Inl e))"

text \<open>
  The result is the warnings logged and either the rows or the exception that left the
  function; \<^verbatim>\<open>time_series.items()\<close> exists only on a dict.
\<close>

definition parse_time_series :: "string \<Rightarrow> json \<Rightarrow> event list \<times> (error + row list)" where
  "parse_time_series symbol time_series =
     (case time_series of
        JObject entries \<Rightarrow> parse_loop symbol entries [] []
      | _ \<Rightarrow> ([], Inl AttributeError))"

subsection \<open>The world a run acts on\<close>

text \<open>
  The table \<^verbatim>\<open>daily_stock_prices\<close> is a list of records, each the key
  \<^verbatim>\<open>(symbol, trade_date)\<close>, the five value columns and \<^verbatim>\<open>last_updated\<close>. The
  primary key is the invariant that the keys of the list are distinct.
\<close>

type_synonym key = "string \<times> date"

type_synonym vals = "pyfloat \<times> pyfloat \<times> pyfloat \<times> pyfloat \<times> int"

type_synonym table = "(key \<times> vals \<times> nat) list"

definition key_of :: "row \<Rightarrow> key" where
  "key_of r = (fst r, fst (snd r))"

definition vals_of :: "row \<Rightarrow> vals" where
  "vals_of r = snd (snd r)"

record http_response =
  status_code :: nat
  json_body :: "json option"

datatype http_outcome = TimedOut | RequestFailed | Responded http_response

datatype conn_status = NotConnected | Open | Closed

text \<open>
  Everything outside the program is in one record. The first seven fields are inputs of
  the run and never change:
  \<^item> \<open>env\<close>: the environment variables;
  \<^item> \<open>http\<close>: how the network answers \<^verbatim>\<open>requests.get\<close> (\<open>json_body\<close> is \<open>None\<close> when
    the body is not JSON);
  \<^item> \<open>py_str\<close>: Python's \<^verbatim>\<open>str\<close> on a decoded JSON value that is not a string;
  \<^item> \<open>connect\<close>: whether \<^verbatim>\<open>psycopg2.connect\<close> fails for the given arguments;
  \<^item> \<open>faults\<close>: the failure, if any, of the n-th round trip to the server on the open
    connection (a lost connection, a timeout, a server error);
  \<^item> \<open>adapt\<close>: the conversion of a row's values to the column types
    \<^verbatim>\<open>NUMERIC(18, 6)\<close> and \<^verbatim>\<open>BIGINT\<close>, or the error of a value out of range;
  \<^item> \<open>txn_time\<close>: the value of \<^verbatim>\<open>NOW()\<close> in the run's transaction.
  The rest is state: \<open>committed\<close> is the table as committed on the server (\<open>None\<close>
  when it does not exist), \<open>pending\<close> the table as the connection's open transaction
  sees it, \<open>round_trips\<close> counts the round trips made, and \<open>events\<close> is the trace.
\<close>

record world =
  env :: "string \<rightharpoonup> string"
  http :: "string \<Rightarrow> (string \<times> string) list \<Rightarrow> http_outcome"
  py_str :: "json \<Rightarrow> string"
  connect :: "(string \<times> string option) list \<Rightarrow> dberror option"
  faults :: "nat \<Rightarrow> dberror option"
  adapt :: "vals \<Rightarrow> dberror + vals"
  txn_time :: nat
  committed :: "table option"
  pending :: "table option"
  conn_status :: conn_status
  round_trips :: nat
  events :: "event list"

definition emit :: "event \<Rightarrow> world \<Rightarrow> world" where
  "emit ev w = w\<lparr>events := events w @ [ev]\<rparr>"

subsection \<open>\<^verbatim>\<open>fetch_stock_data\<close>\<close>

definition API_URL :: string where
  "API_URL = ''https://www.alphavantage.co/query''"

fun is_substring :: "string \<Rightarrow> string \<Rightarrow> bool" where
  "is_substring k [] = (k = [])"
| "is_substring k (c # cs) = (take (length k) (c # cs) = k \<or> is_substring k cs)"

text \<open>
  \<^verbatim>\<open>k in d\<close> for a string \<open>k\<close>: a key of a dict, an element of a list, a substring of a
  string; on anything else a \<^verbatim>\<open>TypeError\<close>.
\<close>

definition contains :: "json \<Rightarrow> string \<Rightarrow> error + bool" where
  "contains d k =
     (case d of
        JObject kvs \<Rightarrow> Inr (k \<in> set (map fst kvs))
      | JArray xs \<Rightarrow> Inr (JString k \<in> set xs)
      | JString s \<Rightarrow> Inr (is_substring k s)
      | _ \<Rightarrow> Inl TypeError)"

text \<open>The value formatted into an f-string: a string as it is, anything else by \<^verbatim>\<open>str\<close>.\<close>

definition format_value :: "(json \<Rightarrow> string) \<Rightarrow> json \<Rightarrow> string" where
  "format_value str v = (case v of JString s \<Rightarrow> s | _ \<Rightarrow> str v)"

definition not_found_message :: string where
  "not_found_message =
     ''Unexpected API response: '' @ [CHR 0x27] @ ''Time Series (Daily)'' @ [CHR 0x27] @
     '' not found''"

text \<open>
  A required lookup that returned has a value; \<open>the_str\<close> reads it (the empty string
  stands for the \<^verbatim>\<open>None\<close> that does not occur there).
\<close>

definition the_str :: "string option \<Rightarrow> string" where
  "the_str v = (case v of Some s \<Rightarrow> s | None \<Rightarrow> [])"

text \<open>
  The checks on the decoded body, after \<^verbatim>\<open>resp.json()\<close>. None of the exceptions raised
  here is caught by the \<^verbatim>\<open>except\<close> clauses of \<^verbatim>\<open>fetch_stock_data\<close>.
\<close>

definition check_payload :: "(json \<Rightarrow> string) \<Rightarrow> json \<Rightarrow> error + json" where
  "check_payload str data =
     bind_err (contains data ''Error Message'') (\<lambda>has_error.
       if has_error then
         bind_err (getitem data ''Error Message'') (\<lambda>msg.
           Inl (RuntimeError (''API error: '' @ format_value str msg)))
       else
         bind_err (contains data ''Time Series (Daily)'') (\<lambda>has_series.
           if \<not> has_series then Inl (RuntimeError not_found_message)
           else getitem data ''Time Series (Daily)''))"

text \<open>
  \<^verbatim>\<open>raise_for_status\<close> raises for a status from 400 to 599. A body that is not JSON
  raises a \<^verbatim>\<open>ValueError\<close>, logged by the last \<^verbatim>\<open>except\<close> clause (in recent versions of
  \<^verbatim>\<open>requests\<close> that exception is also a \<^verbatim>\<open>RequestException\<close> and the clause before
  logs it; the exception raised is the same).
\<close>

definition fetch_stock_data :: "string \<Rightarrow> world \<Rightarrow> (error + json) \<times> world" where
  "fetch_stock_data symbol w =
     (case get_env_var (env w) ''ALPHAVANTAGE_API_KEY'' None True of
        Inl e \<Rightarrow> (Inl e, w)
      | Inr api_key \<Rightarrow>
          (let params = [(''function'', ''TIME_SERIES_DAILY''), (''symbol'', symbol),
                         (''apikey'', the_str api_key)];
               w1 = emit (Log INFO ''Requesting data from Alpha Vantage for symbol=%s''
                            [ArgStr symbol]) w;
               w2 = emit (HttpGet API_URL params 15) w1
           in case http w API_URL params of
                TimedOut \<Rightarrow>
                  (Inl Timeout,
                   emit (Log ERROR ''Timeout while fetching data: %s'' [ArgErr Timeout]) w2)
              | RequestFailed \<Rightarrow>
                  (Inl RequestException,
                   emit (Log ERROR ''Request error while fetching data: %s''
                           [ArgErr RequestException]) w2)
              | Responded resp \<Rightarrow>
                  if 400 \<le> status_code resp \<and> status_code resp < 600 then
                    (Inl (HTTPError (status_code resp)),
                     emit (Log ERROR ''Request error while fetching data: %s''
                             [ArgErr (HTTPError (status_code resp))]) w2)
                  else
                    (case json_body resp of
                       None \<Rightarrow>
                         (Inl JSONDecodeError,
                          emit (Log ERROR ''Failed to parse JSON: %s''
                                  [ArgErr JSONDecodeError]) w2)
                     | Some data \<Rightarrow> (check_payload (py_str w) data, w2))))"

subsection \<open>The database connection\<close>

text \<open>
  \<^verbatim>\<open>get_db_connection\<close>: three required lookups, two with defaults, then
  \<^verbatim>\<open>psycopg2.connect\<close>. A new connection sees the committed table.
\<close>

definition get_db_connection :: "world \<Rightarrow> (error + unit) \<times> world" where
  "get_db_connection w =
     (case get_env_var (env w) ''POSTGRES_USER'' None True of
        Inl e \<Rightarrow> (Inl e, w)
      | Inr user \<Rightarrow>
     (case get_env_var (env w) ''POSTGRES_PASSWORD'' None True of
        Inl e \<Rightarrow> (Inl e, w)
      | Inr password \<Rightarrow>
     (case get_env_var (env w) ''POSTGRES_DB'' None True of
        Inl e \<Rightarrow> (Inl e, w)
      | Inr db \<Rightarrow>
     (case get_env_var (env w) ''POSTGRES_HOST'' (Some ''postgres'') False of
        Inl e \<Rightarrow> (Inl e, w)
      | Inr host \<Rightarrow>
     (case get_env_var (env w) ''POSTGRES_PORT'' (Some ''5432'') False of
        Inl e \<Rightarrow> (Inl e, w)
      | Inr port \<Rightarrow>
          (let args = [(''dbname'', db), (''user'', user), (''password'', password),
                       (''host'', host), (''port'', port)];
               w1 = emit (DbConnect args) w
           in case connect w args of
                Some e \<Rightarrow>
                  (Inl (Psycopg2Error e),
                   emit (Log ERROR ''Failed to connect to Postgres: %s''
                           [ArgErr (Psycopg2Error e)]) w1)
              | None \<Rightarrow>
                  (Inr (), w1\<lparr>conn_status := Open, pending := committed w1\<rparr>)))))))"

text \<open>
  \<^verbatim>\<open>INSERT ... ON CONFLICT (symbol, trade_date) DO UPDATE\<close> for one row: the record
  with the row's key gets the row's values and \<^verbatim>\<open>NOW()\<close>; without such a record one is
  added.
\<close>

fun upsert_row :: "nat \<Rightarrow> key \<Rightarrow> vals \<Rightarrow> table \<Rightarrow> table" where
  "upsert_row now k v [] = [(k, v, now)]"
| "upsert_row now k v ((k', v', u) # t) =
     (if k' = k then (k, v, now) # t else (k', v', u) # upsert_row now k v t)"

text \<open>
  One such statement over several rows. PostgreSQL refuses the statement when two of
  its rows have the same key (the command cannot affect a row a second time); \<open>seen\<close>
  holds the keys of the rows before.
\<close>

fun insert_rows ::
  "(vals \<Rightarrow> dberror + vals) \<Rightarrow> nat \<Rightarrow> row list \<Rightarrow> key list \<Rightarrow> table \<Rightarrow> dberror + table" where
  "insert_rows ad now [] seen t = Inr t"
| "insert_rows ad now (r # rs) seen t =
     (case ad (vals_of r) of
        Inl e \<Rightarrow> Inl e
      | Inr v \<Rightarrow>
          if key_of r \<in> set seen then Inl CardinalityViolation
          else insert_rows ad now rs (key_of r # seen) (upsert_row now (key_of r) v t))"

definition run_statement ::
  "(vals \<Rightarrow> dberror + vals) \<Rightarrow> nat \<Rightarrow> statement \<Rightarrow> table option \<Rightarrow> dberror + table option" where
  "run_statement ad now st p =
     (case st of
        CreateTable \<Rightarrow> Inr (case p of None \<Rightarrow> Some [] | Some t \<Rightarrow> Some t)
      | InsertRows rows \<Rightarrow>
          (case p of
             None \<Rightarrow> Inl UndefinedTable
           | Some t \<Rightarrow>
               (case insert_rows ad now rows [] t of
                  Inl e \<Rightarrow> Inl e
                | Inr t' \<Rightarrow> Inr (Some t'))))"

text \<open>
  \<^verbatim>\<open>cur.execute\<close>: on a connection that is not open psycopg2 raises at once; otherwise
  one round trip, which fails by its fault or by the statement's own error, and a
  failed statement changes nothing.
\<close>

definition execute :: "statement \<Rightarrow> world \<Rightarrow> (error + unit) \<times> world" where
  "execute st w =
     (if conn_status w \<noteq> Open then (Inl (Psycopg2Error InterfaceError), w)
      else
        (let w1 = (emit (DbExecute st) w)\<lparr>round_trips := Suc (round_trips w)\<rparr>
         in case faults w (round_trips w) of
              Some e \<Rightarrow> (Inl (Psycopg2Error e), w1)
            | None \<Rightarrow>
                (case run_statement (adapt w) (txn_time w) st (pending w) of
                   Inl e \<Rightarrow> (Inl (Psycopg2Error e), w1)
                 | Inr p \<Rightarrow> (Inr (), w1\<lparr>pending := p\<rparr>))))"

definition commit :: "world \<Rightarrow> (error + unit) \<times> world" where
  "commit w =
     (if conn_status w \<noteq> Open then (Inl (Psycopg2Error InterfaceError), w)
      else
        (let w1 = (emit DbCommit w)\<lparr>round_trips := Suc (round_trips w)\<rparr>
         in case faults w (round_trips w) of
              Some e \<Rightarrow> (Inl (Psycopg2Error e), w1)
            | None \<Rightarrow> (Inr (), w1\<lparr>committed := pending w\<rparr>)))"

definition rollback :: "world \<Rightarrow> (error + unit) \<times> world" where
  "rollback w =
     (if conn_status w \<noteq> Open then (Inl (Psycopg2Error InterfaceError), w)
      else
        (let w1 = (emit DbRollback w)\<lparr>round_trips := Suc (round_trips w)\<rparr>
         in case faults w (round_trips w) of
              Some e \<Rightarrow> (Inl (Psycopg2Error e), w1)
            | None \<Rightarrow> (Inr (), w1\<lparr>pending := committed w\<rparr>)))"

text \<open>\<^verbatim>\<open>conn.close()\<close>: the server drops what the open transaction had not committed.\<close>

definition close_conn :: "world \<Rightarrow> world" where
  "close_conn w = (emit DbClose w)\<lparr>conn_status := Closed, pending := committed w\<rparr>"

definition ensure_table_exists :: "world \<Rightarrow> (error + unit) \<times> world" where
  "ensure_table_exists w = execute CreateTable w"

subsection \<open>\<^verbatim>\<open>upsert_stock_data\<close>\<close>

text \<open>
  \<^verbatim>\<open>execute_values\<close> sends the rows in pages of 100 (its default \<^verbatim>\<open>page_size\<close>), one
  statement per page, and stops at the first statement that fails.
\<close>

function paginate :: "nat \<Rightarrow> 'a list \<Rightarrow> 'a list list" where
  "paginate n xs = (if n = 0 \<or> xs = [] then [] else take n xs # paginate n (drop n xs))"
  by pat_completeness auto
termination
  by (relation "measure (\<lambda>(n, xs). length xs)") auto

declare paginate.simps [simp del]

fun execute_pages :: "row list list \<Rightarrow> world \<Rightarrow> (error + unit) \<times> world" where
  "execute_pages [] w = (Inr (), w)"
| "execute_pages (p # ps) w =
     (case execute (InsertRows p) w of
        (Inl e, w') \<Rightarrow> (Inl e, w')
      | (Inr u, w') \<Rightarrow> execute_pages ps w')"

definition execute_values :: "row list \<Rightarrow> world \<Rightarrow> (error + unit) \<times> world" where
  "execute_values rows w =
     (if conn_status w \<noteq> Open then (Inl (Psycopg2Error InterfaceError), w)
      else execute_pages (paginate 100 rows) w)"

definition is_psycopg2_error :: "error \<Rightarrow> bool" where
  "is_psycopg2_error e = (case e of Psycopg2Error _ \<Rightarrow> True | _ \<Rightarrow> False)"

text \<open>
  The handler \<^verbatim>\<open>except psycopg2.Error as e\<close>: roll back, log, re-raise. When
  \<^verbatim>\<open>conn.rollback()\<close> itself raises, that exception leaves the function instead.
\<close>

definition upsert_failed :: "error \<Rightarrow> world \<Rightarrow> (error + unit) \<times> world" where
  "upsert_failed e w =
     (if is_psycopg2_error e then
        (case rollback w of
           (Inl e', w') \<Rightarrow> (Inl e', w')
         | (Inr u, w') \<Rightarrow> (Inl e, emit (Log ERROR ''Failed to upsert data: %s'' [ArgErr e]) w'))
      else (Inl e, w))"

definition upsert_stock_data :: "row list \<Rightarrow> world \<Rightarrow> (error + unit) \<times> world" where
  "upsert_stock_data rows w =
     (if rows = [] then (Inr (), emit (Log WARNING ''No rows to insert.'' []) w)
      else
        (case execute_values rows w of
           (Inl e, w1) \<Rightarrow> upsert_failed e w1
         | (Inr u, w1) \<Rightarrow>
             (case commit w1 of
                (Inl e, w2) \<Rightarrow> upsert_failed e w2
              | (Inr u', w2) \<Rightarrow>
                  (Inr (),
                   emit (Log INFO ''Inserted/updated %d rows successfully.''
                           [ArgInt (int (length rows))]) w2))))"

subsection \<open>\<^verbatim>\<open>main\<close>\<close>

text \<open>The inner \<^verbatim>\<open>try ... finally: conn.close()\<close>, entered once the connection is open.\<close>

definition with_connection :: "row list \<Rightarrow> world \<Rightarrow> (error + unit) \<times> world" where
  "with_connection rows w =
     (let (r, w') = (case ensure_table_exists w of
                       (Inl e, w1) \<Rightarrow> (Inl e, w1)
                     | (Inr u, w1) \<Rightarrow> upsert_stock_data rows w1)
      in (r, close_conn w'))"

text \<open>The body of the outer \<^verbatim>\<open>try\<close>.\<close>

definition pipeline :: "string \<Rightarrow> world \<Rightarrow> (error + unit) \<times> world" where
  "pipeline symbol w =
     (case fetch_stock_data symbol w of
        (Inl e, w1) \<Rightarrow> (Inl e, w1)
      | (Inr time_series, w1) \<Rightarrow>
          (case parse_time_series symbol time_series of
             (evs, Inl e) \<Rightarrow> (Inl e, w1\<lparr>events := events w1 @ evs\<rparr>)
           | (evs, Inr rows) \<Rightarrow>
               (case get_db_connection (w1\<lparr>events := events w1 @ evs\<rparr>) of
                  (Inl e, w2) \<Rightarrow> (Inl e, w2)
                | (Inr u, w2) \<Rightarrow>
                    (case with_connection rows w2 of
                       (Inl e, w3) \<Rightarrow> (Inl e, w3)
                     | (Inr u', w3) \<Rightarrow>
                         (Inr (),
                          emit (Log INFO ''Pipeline completed successfully for symbol=%s''
                                  [ArgStr symbol]) w3)))))"

text \<open>
  \<^verbatim>\<open>main\<close>: the symbol has a default and is not required, so its lookup returns a
  string; every exception of the body is logged and raised again.
\<close>

definition main :: "world \<Rightarrow> (error + unit) \<times> world" where
  "main w =
     (case get_env_var (env w) ''STOCK_SYMBOL'' (Some ''MSFT'') False of
        Inl e \<Rightarrow> (Inl e, w)
      | Inr v \<Rightarrow>
          (let symbol = the_str v;
               w0 = emit (Log INFO ''Starting stock pipeline for symbol=%s'' [ArgStr symbol]) w
           in case pipeline symbol w0 of
                (Inl e, w') \<Rightarrow> (Inl e, emit (Log ERROR ''Pipeline failed: %s'' [ArgErr e]) w')
              | (Inr u, w') \<Rightarrow> (Inr (), w')))"

subsection \<open>Vocabulary of the properties\<close>

definition is_http :: "event \<Rightarrow> bool" where
  "is_http ev = (case ev of HttpGet _ _ _ \<Rightarrow> True | _ \<Rightarrow> False)"

text \<open>An entry of the daily series with the five fields given as strings.\<close>

definition daily ::
  "string \<Rightarrow> string \<Rightarrow> string \<Rightarrow> string \<Rightarrow> string \<Rightarrow> string \<Rightarrow> string \<times> json" where
  "daily d op hi lo cl vol =
     (d, JObject [(''1. open'', JString op), (''2. high'', JString hi), (''3. low'', JString lo),
                  (''4. close'', JString cl), (''5. volume'', JString vol)])"










text \<open>
  A world for running the definitions: every variable set, a server that answers 200
  with the given body, a database that never fails and stores values as sent.
\<close>

definition example_env :: "string \<rightharpoonup> string" where
  "example_env =
     [''ALPHAVANTAGE_API_KEY'' \<mapsto> ''demo'', ''POSTGRES_USER'' \<mapsto> ''airflow'',
      ''POSTGRES_PASSWORD'' \<mapsto> ''secret'', ''POSTGRES_DB'' \<mapsto> ''stocks'']"

definition example_world :: "json \<Rightarrow> world" where
  "example_world body =
     \<lparr>env = example_env,
      http = (\<lambda>url params. Responded \<lparr>status_code = 200, json_body = Some body\<rparr>),
      py_str = (\<lambda>v. ''?''),
      connect = (\<lambda>args. None),
      faults = (\<lambda>n. None),
      adapt = Inr,
      txn_time = 1,
      committed = None,
      pending = None,
      conn_status = NotConnected,
      round_trips = 0,
      events = []\<rparr>"

text \<open>
  A row, and a world whose connection is open on a table with the given records, all
  committed.
\<close>

definition example_row :: row where
  "example_row =
     (''MSFT'', Date 2024 1 2, Finite 370, Finite (751 / 2), Finite 369, Finite 374, 21000000)"

definition open_world :: "table \<Rightarrow> world" where
  "open_world t =
     (example_world JNull)\<lparr>committed := Some t, pending := Some t, conn_status := Open\<rparr>"

section \<open>Properties\<close>

subsection \<open>Evaluation rules\<close>

lemmas float_defs = float_of_string_def strip_def is_space_def is_digit_def split_sign_def
  parse_decimal_def parse_exponent_def digits_val_def digit_val_def lower_def round_decimal_def
  round_double_def round_pos_def floor_log2_def round_half_even_def pow2_def scale2_def
  bit_length.simps Let_def

lemmas date_defs = strptime_def month_day_match_def month_alternatives_def day_alternatives_def
  days_in_month_def is_leap_def is_digit_def digits_val_def digit_val_def Let_def

lemmas entry_defs = parse_time_series_def parse_entry_def float_field_def volume_field_def
  getitem_def py_float_def bind_err_def int_of_float_def trunc_toward_zero_def caught_def
  skip_warning_def daily_def

lemma strptime_2024_01_02: "strptime ''2024-01-02'' = Inr (Date 2024 1 2)"
  by (simp add: date_defs)

lemma strptime_2024_01_03: "strptime ''2024-01-03'' = Inr (Date 2024 1 3)"
  by (simp add: date_defs)

lemma strptime_2024_01_04: "strptime ''2024-01-04'' = Inr (Date 2024 1 4)"
  by (simp add: date_defs)

lemma float_370: "float_of_string ''370.0'' = Inr (Finite 370)"
  by (simp add: float_defs)

lemma float_375_5: "float_of_string ''375.5'' = Inr (Finite (751 / 2))"
  by (simp add: float_defs)

lemma float_369: "float_of_string ''369.0'' = Inr (Finite 369)"
  by (simp add: float_defs)

lemma float_374: "float_of_string ''374.0'' = Inr (Finite 374)"
  by (simp add: float_defs)

lemma float_21000000: "float_of_string ''21000000'' = Inr (Finite 21000000)"
  by (simp add: float_defs)

lemma float_100_9:
  "float_of_string ''100.9'' = Inr (Finite (3550103143763149 / 35184372088832))"
  by (simp add: float_defs)

lemma float_2_pow_53_plus_1:
  "float_of_string ''9007199254740993'' = Inr (Finite 9007199254740992)"
  by (simp add: float_defs)

lemma float_inf: "float_of_string ''inf'' = Inr PosInf"
  by (simp add: float_defs)

lemma float_abc: "float_of_string ''abc'' = Inl ValueError"
  by (simp add: float_defs)

lemmas float_examples = float_370 float_375_5 float_369 float_374 float_21000000 float_100_9
  float_2_pow_53_plus_1 float_inf float_abc

subsection \<open>The worked example of the normalizer\<close>

text \<open>
  C7. For the symbol MSFT and the single entry 2024-01-02 with open 370.0, high 375.5,
  low 369.0, close 374.0 and volume 21000000, \<open>parse_time_series\<close> logs nothing and
  returns exactly the one row (MSFT, 2024-01-02, 370.0, 375.5, 369.0, 374.0, 21000000).
\<close>

theorem parse_time_series_msft_example:
  "parse_time_series ''MSFT''
     (JObject [(''2024-01-02'',
        JObject [(''1. open'', JString ''370.0''), (''2. high'', JString ''375.5''),
                 (''3. low'', JString ''369.0''), (''4. close'', JString ''374.0''),
                 (''5. volume'', JString ''21000000'')])])
   = ([], Inr [(''MSFT'', Date 2024 1 2, Finite 370, Finite (751 / 2), Finite 369,
                Finite 374, 21000000)])"
  by (simp add: entry_defs strptime_2024_01_02 float_examples)


subsection \<open>Configuration\<close>

lemma get_env_var_empty:
  "get_env_var (vars(name \<mapsto> [])) name dflt True = Inl (RuntimeError (not_set_message name))"
  by (simp add: get_env_var_def getenv_def falsy_def)

lemma get_env_var_unset:
  "vars name = None \<Longrightarrow>
   get_env_var vars name None True = Inl (RuntimeError (not_set_message name))"
  by (simp add: get_env_var_def getenv_def falsy_def)

lemma get_env_var_set:
  "vars name = Some v \<Longrightarrow> v \<noteq> [] \<Longrightarrow> get_env_var vars name dflt req = Inr (Some v)"
  by (simp add: get_env_var_def getenv_def falsy_def)

lemma get_env_var_required_cases:
  "get_env_var vars name None True = Inl (RuntimeError (not_set_message name)) \<or>
   (\<exists>v. v \<noteq> [] \<and> vars name = Some v \<and> get_env_var vars name None True = Inr (Some v))"
  by (cases "vars name") (auto simp: get_env_var_def getenv_def falsy_def)

lemma get_env_var_optional:
  "get_env_var vars name dflt False = Inr (getenv vars name dflt)"
  by (simp add: get_env_var_def)

text \<open>
  C10. A required lookup of a variable that is set to the empty string raises the same
  missing-configuration error as the lookup of an unset variable, whatever the default,
  where a lookup that is not required returns the empty string; so do the lookup of the
  API credential in \<open>fetch_stock_data\<close> and the lookups of the database user, password
  and name in \<open>get_db_connection\<close> (a later one raises for itself unless an earlier
  one has raised already).
\<close>

theorem required_empty_like_unset:
  "get_env_var (vars(name \<mapsto> [])) name None True
     = get_env_var (vars(name := None)) name None True
   \<and> get_env_var (vars(name \<mapsto> [])) name dflt True
     = Inl (RuntimeError (not_set_message name))
   \<and> get_env_var (vars(name \<mapsto> [])) name dflt False = Inr (Some [])
   \<and> fst (fetch_stock_data symbol (w\<lparr>env := (env w)(''ALPHAVANTAGE_API_KEY'' \<mapsto> [])\<rparr>))
     = Inl (RuntimeError (not_set_message ''ALPHAVANTAGE_API_KEY''))
   \<and> fst (get_db_connection (w\<lparr>env := (env w)(''POSTGRES_USER'' \<mapsto> [])\<rparr>))
     = Inl (RuntimeError (not_set_message ''POSTGRES_USER''))
   \<and> fst (get_db_connection (w\<lparr>env := (env w)(''POSTGRES_PASSWORD'' \<mapsto> [])\<rparr>))
     \<in> {Inl (RuntimeError (not_set_message ''POSTGRES_USER'')),
        Inl (RuntimeError (not_set_message ''POSTGRES_PASSWORD''))}
   \<and> fst (get_db_connection (w\<lparr>env := (env w)(''POSTGRES_DB'' \<mapsto> [])\<rparr>))
     \<in> {Inl (RuntimeError (not_set_message ''POSTGRES_USER'')),
        Inl (RuntimeError (not_set_message ''POSTGRES_PASSWORD'')),
        Inl (RuntimeError (not_set_message ''POSTGRES_DB''))}"
proof -
  let ?pw = "(env w)(''POSTGRES_PASSWORD'' \<mapsto> [])"
  let ?db = "(env w)(''POSTGRES_DB'' \<mapsto> [])"
  have unset: "get_env_var (vars(name := None)) name None True
      = Inl (RuntimeError (not_set_message name))"
    by (simp add: get_env_var_unset)
  have api: "fst (fetch_stock_data symbol (w\<lparr>env := (env w)(''ALPHAVANTAGE_API_KEY'' \<mapsto> [])\<rparr>))
      = Inl (RuntimeError (not_set_message ''ALPHAVANTAGE_API_KEY''))"
    by (simp add: fetch_stock_data_def get_env_var_empty)
  have user: "fst (get_db_connection (w\<lparr>env := (env w)(''POSTGRES_USER'' \<mapsto> [])\<rparr>))
      = Inl (RuntimeError (not_set_message ''POSTGRES_USER''))"
    by (simp add: get_db_connection_def get_env_var_empty)
  have pw: "fst (get_db_connection (w\<lparr>env := ?pw\<rparr>))
      \<in> {Inl (RuntimeError (not_set_message ''POSTGRES_USER'')),
         Inl (RuntimeError (not_set_message ''POSTGRES_PASSWORD''))}"
    using get_env_var_required_cases [of ?pw "''POSTGRES_USER''"]
    by (auto simp: get_db_connection_def get_env_var_empty)
  have db: "fst (get_db_connection (w\<lparr>env := ?db\<rparr>))
      \<in> {Inl (RuntimeError (not_set_message ''POSTGRES_USER'')),
         Inl (RuntimeError (not_set_message ''POSTGRES_PASSWORD'')),
         Inl (RuntimeError (not_set_message ''POSTGRES_DB''))}"
    using get_env_var_required_cases [of ?db "''POSTGRES_USER''"]
      get_env_var_required_cases [of ?db "''POSTGRES_PASSWORD''"]
    by (auto simp: get_db_connection_def get_env_var_empty)
  show ?thesis
    using unset api user pw db
    by (simp add: get_env_var_empty get_env_var_optional getenv_def)
qed

subsection \<open>The fetcher\<close>

text \<open>
  C5. When the API credential is not set, \<open>fetch_stock_data\<close> raises the configuration
  error and leaves the world as it was, for every symbol; \<open>main\<close> raises the same error,
  and the only events of its run are its two log lines: no HTTP request is made.
\<close>

theorem missing_credential_no_request:
  "env w ''ALPHAVANTAGE_API_KEY'' = None \<Longrightarrow>
   fetch_stock_data symbol w
     = (Inl (RuntimeError (not_set_message ''ALPHAVANTAGE_API_KEY'')), w)
   \<and> fst (main w) = Inl (RuntimeError (not_set_message ''ALPHAVANTAGE_API_KEY''))
   \<and> events (snd (main w)) = events w @
       [Log INFO ''Starting stock pipeline for symbol=%s''
          [ArgStr (the_str (getenv (env w) ''STOCK_SYMBOL'' (Some ''MSFT'')))],
        Log ERROR ''Pipeline failed: %s''
          [ArgErr (RuntimeError (not_set_message ''ALPHAVANTAGE_API_KEY''))]]
   \<and> filter is_http (events (snd (main w))) = filter is_http (events w)"
  by (simp add: main_def pipeline_def fetch_stock_data_def get_env_var_unset
      get_env_var_optional emit_def is_http_def)

theorem missing_credential_no_request_witness:
  "env ((example_world JNull)\<lparr>env := Map.empty\<rparr>) ''ALPHAVANTAGE_API_KEY'' = None
   \<and> fst (main ((example_world JNull)\<lparr>env := Map.empty\<rparr>))
     = Inl (RuntimeError (not_set_message ''ALPHAVANTAGE_API_KEY''))
   \<and> events (snd (main ((example_world JNull)\<lparr>env := Map.empty\<rparr>)))
     = [Log INFO ''Starting stock pipeline for symbol=%s'' [ArgStr ''MSFT''],
        Log ERROR ''Pipeline failed: %s''
          [ArgErr (RuntimeError (not_set_message ''ALPHAVANTAGE_API_KEY''))]]"
  using missing_credential_no_request [of "(example_world JNull)\<lparr>env := Map.empty\<rparr>" "''MSFT''"]
  by (simp add: example_world_def getenv_def the_str_def)


lemma contains_object: "contains (JObject kvs) k = Inr (map_of kvs k \<noteq> None)"
  by (simp add: contains_def map_of_eq_None_iff)

lemma check_payload_error:
  "map_of kvs ''Error Message'' = Some msg \<Longrightarrow>
   check_payload str (JObject kvs) = Inl (RuntimeError (''API error: '' @ format_value str msg))"
  by (simp add: check_payload_def contains_object bind_err_def getitem_def)

lemma check_payload_no_keys:
  "map_of kvs ''Error Message'' = None \<Longrightarrow> map_of kvs ''Time Series (Daily)'' = None \<Longrightarrow>
   check_payload str (JObject kvs) = Inl (RuntimeError not_found_message)"
  by (simp add: check_payload_def contains_object bind_err_def getitem_def)

lemma check_payload_series:
  "map_of kvs ''Error Message'' = None \<Longrightarrow> map_of kvs ''Time Series (Daily)'' = Some ts \<Longrightarrow>
   check_payload str (JObject kvs) = Inr ts"
  by (simp add: check_payload_def contains_object bind_err_def getitem_def)

lemma fetch_stock_data_success_status:
  assumes "env w ''ALPHAVANTAGE_API_KEY'' = Some k" and "k \<noteq> []"
    and "http w API_URL [(''function'', ''TIME_SERIES_DAILY''), (''symbol'', symbol),
                          (''apikey'', k)] = Responded resp"
    and "\<not> (400 \<le> status_code resp \<and> status_code resp < 600)"
    and "json_body resp = Some data"
  shows "fst (fetch_stock_data symbol w) = check_payload (py_str w) data"
  using assms
  by (auto simp: fetch_stock_data_def get_env_var_set the_str_def Let_def)

text \<open>
  C1. Let the credential be set and the response to the request have a status outside
  400..599 and a JSON object as its body. If the object has the key "Error Message",
  \<open>fetch_stock_data\<close> raises the error carrying the provider's message (the message
  itself when it is a string), whether or not the key "Time Series (Daily)" is there too:
  the body is not returned as data. If the object has neither key, the error of the
  unexpected response is raised. Only an object without the error key and with the data
  key is returned, as the value under the data key.
\<close>

theorem error_payload_before_data:
  assumes "env w ''ALPHAVANTAGE_API_KEY'' = Some k" and "k \<noteq> []"
    and "http w API_URL [(''function'', ''TIME_SERIES_DAILY''), (''symbol'', symbol),
                          (''apikey'', k)] = Responded resp"
    and "\<not> (400 \<le> status_code resp \<and> status_code resp < 600)"
    and "json_body resp = Some (JObject kvs)"
  shows "(map_of kvs ''Error Message'' = Some msg \<longrightarrow>
            fst (fetch_stock_data symbol w)
              = Inl (RuntimeError (''API error: '' @ format_value (py_str w) msg)))
       \<and> (map_of kvs ''Error Message'' = Some (JString s) \<longrightarrow>
            fst (fetch_stock_data symbol w) = Inl (RuntimeError (''API error: '' @ s)))
       \<and> (map_of kvs ''Error Message'' = None \<and> map_of kvs ''Time Series (Daily)'' = None \<longrightarrow>
            fst (fetch_stock_data symbol w) = Inl (RuntimeError not_found_message))
       \<and> (map_of kvs ''Error Message'' = None \<and> map_of kvs ''Time Series (Daily)'' = Some ts \<longrightarrow>
            fst (fetch_stock_data symbol w) = Inr ts)"
  using fetch_stock_data_success_status [OF assms]
  by (simp add: check_payload_error check_payload_no_keys check_payload_series format_value_def)

theorem error_payload_before_data_witness:
  "fst (fetch_stock_data ''MSFT''
          (example_world (JObject [(''Error Message'', JString ''Invalid API call.''),
                                   (''Time Series (Daily)'', JObject [])])))
     = Inl (RuntimeError ''API error: Invalid API call.'')
   \<and> fst (fetch_stock_data ''MSFT'' (example_world (JObject [(''Note'', JString ''limit'')])))
     = Inl (RuntimeError not_found_message)
   \<and> fst (fetch_stock_data ''MSFT'' (example_world (JObject [(''Time Series (Daily)'', JObject [])])))
     = Inr (JObject [])"
proof -
  let ?b1 = "[(''Error Message'', JString ''Invalid API call.''),
              (''Time Series (Daily)'', JObject [])]"
  let ?b2 = "[(''Note'', JString ''limit'')]"
  let ?b3 = "[(''Time Series (Daily)'', JObject [])]"
  have a: "fst (fetch_stock_data ''MSFT'' (example_world (JObject ?b1)))
      = Inl (RuntimeError (''API error: '' @ ''Invalid API call.''))"
    using error_payload_before_data [of "example_world (JObject ?b1)" "''demo''" "''MSFT''"
        "\<lparr>status_code = 200, json_body = Some (JObject ?b1)\<rparr>" ?b1
        "JString ''Invalid API call.''" "''Invalid API call.''" JNull]
    by (simp add: example_world_def example_env_def format_value_def)
  have b: "fst (fetch_stock_data ''MSFT'' (example_world (JObject ?b2)))
      = Inl (RuntimeError not_found_message)"
    using error_payload_before_data [of "example_world (JObject ?b2)" "''demo''" "''MSFT''"
        "\<lparr>status_code = 200, json_body = Some (JObject ?b2)\<rparr>" ?b2 JNull "''''" JNull]
    by (simp add: example_world_def example_env_def)
  have c: "fst (fetch_stock_data ''MSFT'' (example_world (JObject ?b3)))
      = Inr (JObject [])"
    using error_payload_before_data [of "example_world (JObject ?b3)" "''demo''" "''MSFT''"
        "\<lparr>status_code = 200, json_body = Some (JObject ?b3)\<rparr>" ?b3 JNull "''''" "JObject []"]
    by (simp add: example_world_def example_env_def)
  show ?thesis using a b c by simp
qed

subsection \<open>The normalizer\<close>









subsection \<open>Integers that floats hold exactly\<close>

lemma bit_length_bounds:
  "0 < n \<Longrightarrow> 2 ^ (bit_length n - 1) \<le> n \<and> n < 2 ^ bit_length n"
proof (induction n rule: bit_length.induct)
  case (1 n)
  show ?case
  proof (cases "n div 2 \<le> 0")
    case True
    with "1.prems" have "n = 1" by simp
    then show ?thesis by (simp add: bit_length.simps)
  next
    case False
    then have pos: "0 < n div 2" by simp
    from "1.IH" "1.prems" pos
    have lo: "2 ^ (bit_length (n div 2) - 1) \<le> n div 2"
      and hi: "n div 2 < 2 ^ bit_length (n div 2)" by simp_all
    from pos have bl: "0 < bit_length (n div 2)" by (subst bit_length.simps) simp
    have b: "bit_length n = Suc (bit_length (n div 2))"
      using "1.prems" by (subst bit_length.simps) simp
    have "(2::int) ^ bit_length (n div 2) = 2 * 2 ^ (bit_length (n div 2) - 1)"
      using bl by (cases "bit_length (n div 2)") simp_all
    with lo have "2 ^ bit_length (n div 2) \<le> 2 * (n div 2)" by simp
    also have "\<dots> \<le> n" by simp
    finally have l: "2 ^ (bit_length n - 1) \<le> n" using b by simp
    from hi have "n < 2 * 2 ^ bit_length (n div 2)" by simp
    then have h: "n < 2 ^ bit_length n" using b by simp
    from l h show ?thesis by simp
  qed
qed

text \<open>
  The conversion is exact on the integers below \<open>2 ^ 53\<close>: an integral volume below
  that bound is stored as written.
\<close>

lemma round_double_exact:
  assumes "0 < n" and "n < 2 ^ 53"
  shows "round_double neg n 1 = Finite (if neg then - of_int n else of_int n)"
proof -
  let ?b = "bit_length n"
  from bit_length_bounds [OF assms(1)] have lo: "2 ^ (?b - 1) \<le> n" and hi: "n < 2 ^ ?b"
    by simp_all
  from assms(1) have bpos: "0 < ?b" by (subst bit_length.simps) simp
  have b53: "?b \<le> 53"
  proof (rule ccontr)
    assume "\<not> ?b \<le> 53"
    then have "53 \<le> ?b - 1" by simp
    then have "(2::int) ^ 53 \<le> 2 ^ (?b - 1)" by (intro power_increasing) simp_all
    with lo assms(2) show False by simp
  qed
  have b1: "bit_length 1 = 1" by (simp add: bit_length.simps)
  have fl: "floor_log2 n 1 = int ?b - 1"
    using lo bpos by (simp add: floor_log2_def scale2_def b1 Let_def nat_diff_distrib)
  define j where "j = 53 - ?b"
  have s: "max (floor_log2 n 1) (- 1022) - 52 = - int j"
    using b53 bpos by (simp add: fl j_def)
  have rp: "round_pos n 1 = of_int n"
  proof (cases "j = 0")
    case True
    with s show ?thesis
      by (simp add: round_pos_def scale2_def round_half_even_def pow2_def Let_def)
  next
    case False
    with s show ?thesis
      by (simp add: round_pos_def scale2_def round_half_even_def pow2_def Let_def)
  qed
  have "of_int n < (2::rat) ^ 1024"
  proof -
    have "n < 2 ^ 1024" using assms(2) by simp
    then have "(of_int n :: rat) < of_int (2 ^ 1024)" by (simp only: of_int_less_iff)
    then show ?thesis by simp
  qed
  then have "\<not> pow2 1024 \<le> of_int n" by (simp add: pow2_def)
  with rp assms(1) show ?thesis by (simp add: round_double_def Let_def)
qed






lemma int_of_float_cases:
  "int_of_float x = Inl ValueError \<or> int_of_float x = Inl OverflowError
   \<or> (\<exists>n. int_of_float x = Inr n)"
  by (cases x) (simp_all add: int_of_float_def)





subsection \<open>The store\<close>




text \<open>
  C3 fails on the code. Three entries: a well-formed one, one whose volume "abc" is not
  numeric, and one whose five fields are all present and accepted by \<^verbatim>\<open>float\<close>, with
  the volume "inf". The second is skipped with a warning. For the third,
  \<^verbatim>\<open>float("inf")\<close> succeeds and \<^verbatim>\<open>int\<close> of the infinity raises \<^verbatim>\<open>OverflowError\<close>, which
  \<^verbatim>\<open>except (KeyError, ValueError)\<close> does not catch: the function raises, and the row of
  the first entry is lost with it, where two rows (or one, if the infinite volume counts
  as malformed) were to be returned.
\<close>

theorem parse_time_series_infinite_volume:
  "parse_time_series ''MSFT''
     (JObject [daily ''2024-01-02'' ''370.0'' ''375.5'' ''369.0'' ''374.0'' ''21000000'',
               daily ''2024-01-03'' ''370.0'' ''375.5'' ''369.0'' ''374.0'' ''abc'',
               daily ''2024-01-04'' ''370.0'' ''375.5'' ''369.0'' ''374.0'' ''inf''])
   = ([Log WARNING ''Skipping date %s due to parsing error: %s''
         [ArgStr ''2024-01-03'', ArgErr ValueError]],
      Inl OverflowError)"
  by (simp add: entry_defs strptime_2024_01_02 strptime_2024_01_03 strptime_2024_01_04
      float_examples)

text \<open>
  What the loop does otherwise: when every entry either yields a row or raises what the
  handler catches, the rows of the entries that yield one are returned in order.
\<close>

lemma parse_loop_tolerant:
  assumes "list_all (\<lambda>(d, dd). case parse_entry symbol d dd of
                                 Inl e \<Rightarrow> caught e | Inr r \<Rightarrow> True) entries"
  shows "snd (parse_loop symbol entries rows evs)
       = Inr (rows @ concat (map (\<lambda>(d, dd). case parse_entry symbol d dd of
                                              Inl e \<Rightarrow> [] | Inr r \<Rightarrow> [r]) entries))"
  using assms
proof (induction entries arbitrary: rows evs)
  case Nil
  then show ?case by simp
next
  case (Cons entry entries)
  obtain d dd where entry: "entry = (d, dd)" by (cases entry)
  show ?case
  proof (cases "parse_entry symbol d dd")
    case (Inl e)
    with Cons entry show ?thesis by simp
  next
    case (Inr r)
    with Cons entry show ?thesis by simp
  qed
qed

subsection \<open>One row, one statement\<close>





















subsection \<open>Statements on the connection\<close>



















subsection \<open>The bulk upsert\<close>












lemma paginate_single: "paginate 100 [r] = [[r]]"
  by (subst paginate.simps, simp, subst paginate.simps, simp)









subsection \<open>The connection's life\<close>

lemma close_conn_closed:
  "conn_status (close_conn w) = Closed" "events (close_conn w) = events w @ [DbClose]"
  by (simp_all add: close_conn_def emit_def)

lemma with_connection_cases:
  "with_connection rows w =
     (case ensure_table_exists w of
        (Inl e, w1) \<Rightarrow> (Inl e, close_conn w1)
      | (Inr u, w1) \<Rightarrow>
          (fst (upsert_stock_data rows w1), close_conn (snd (upsert_stock_data rows w1))))"
  by (simp add: with_connection_def split: prod.splits sum.splits)

lemma with_connection_closed:
  "conn_status (snd (with_connection rows w)) = Closed
   \<and> (\<exists>evs. events (snd (with_connection rows w)) = evs @ [DbClose])"
  by (simp add: with_connection_cases close_conn_closed split: prod.splits sum.splits)

lemma fetch_stock_data_conn:
  "conn_status (snd (fetch_stock_data symbol w)) = conn_status w"
  by (simp add: fetch_stock_data_def emit_def Let_def
      split: sum.splits http_outcome.splits option.splits)

lemma get_db_connection_conn:
  "(\<exists>e. fst (get_db_connection w) = Inl e
        \<and> conn_status (snd (get_db_connection w)) = conn_status w)
   \<or> (fst (get_db_connection w) = Inr () \<and> conn_status (snd (get_db_connection w)) = Open)"
  by (simp add: get_db_connection_def emit_def Let_def split: sum.splits option.splits)

lemma pipeline_conn:
  assumes "conn_status w \<noteq> Open"
  shows "conn_status (snd (pipeline symbol w)) \<noteq> Open"
proof -
  obtain r1 w1 where f: "fetch_stock_data symbol w = (r1, w1)"
    by (cases "fetch_stock_data symbol w")
  have c1: "conn_status w1 \<noteq> Open"
    using fetch_stock_data_conn [of symbol w] f assms by simp
  show ?thesis
  proof (cases r1)
    case (Inl e)
    with f c1 show ?thesis by (simp add: pipeline_def)
  next
    case (Inr ts)
    obtain evs r2 where p: "parse_time_series symbol ts = (evs, r2)"
      by (cases "parse_time_series symbol ts")
    let ?w2 = "w1\<lparr>events := events w1 @ evs\<rparr>"
    have c2: "conn_status ?w2 \<noteq> Open" using c1 by simp
    show ?thesis
    proof (cases r2)
      case (Inl e)
      with f Inr p c2 show ?thesis by (simp add: pipeline_def)
    next
      case rows: (Inr rows)
      obtain r3 w3 where g: "get_db_connection ?w2 = (r3, w3)"
        by (cases "get_db_connection ?w2")
      show ?thesis
      proof (cases r3)
        case (Inl e)
        with get_db_connection_conn [of ?w2] g c2 have "conn_status w3 \<noteq> Open" by auto
        with f Inr p rows g Inl show ?thesis by (simp add: pipeline_def)
      next
        case u: (Inr u)
        obtain r4 w4 where wc: "with_connection rows w3 = (r4, w4)"
          by (cases "with_connection rows w3")
        with with_connection_closed [of rows w3] have c4: "conn_status w4 = Closed" by simp
        show ?thesis
        proof (cases r4)
          case (Inl e)
          with f Inr p rows g u wc c4 show ?thesis by (simp add: pipeline_def)
        next
          case r4: (Inr u')
          with f Inr p rows g u wc c4 show ?thesis by (simp add: pipeline_def emit_def)
        qed
      qed
    qed
  qed
qed

lemma pipeline_opened:
  assumes "fetch_stock_data symbol w = (Inr ts, w1)"
    and "parse_time_series symbol ts = (evs, Inr rows)"
    and "get_db_connection (w1\<lparr>events := events w1 @ evs\<rparr>) = (Inr (), w2)"
  shows "conn_status w2 = Open \<and> conn_status (snd (pipeline symbol w)) = Closed
       \<and> fst (pipeline symbol w) = fst (with_connection rows w2)"
proof -
  have o: "conn_status w2 = Open"
    using get_db_connection_conn [of "w1\<lparr>events := events w1 @ evs\<rparr>"] assms(3) by simp
  have c: "conn_status (snd (with_connection rows w2)) = Closed"
    using with_connection_closed [of rows w2] by simp
  obtain r w3 where wc: "with_connection rows w2 = (r, w3)"
    by (cases "with_connection rows w2")
  with c have c3: "conn_status w3 = Closed" by simp
  show ?thesis
  proof (cases r)
    case (Inl e)
    with assms o wc c3 show ?thesis by (simp add: pipeline_def)
  next
    case (Inr u)
    with assms o wc c3 show ?thesis by (simp add: pipeline_def emit_def)
  qed
qed

lemma main_conn:
  assumes "conn_status w \<noteq> Open"
  shows "conn_status (snd (main w)) \<noteq> Open"
proof -
  let ?s = "the_str (getenv (env w) ''STOCK_SYMBOL'' (Some ''MSFT''))"
  let ?w0 = "emit (Log INFO ''Starting stock pipeline for symbol=%s'' [ArgStr ?s]) w"
  have "conn_status ?w0 \<noteq> Open" using assms by (simp add: emit_def)
  then have p: "conn_status (snd (pipeline ?s ?w0)) \<noteq> Open" by (rule pipeline_conn)
  obtain r w' where pl: "pipeline ?s ?w0 = (r, w')" by (cases "pipeline ?s ?w0")
  with p have c: "conn_status w' \<noteq> Open" by simp
  show ?thesis
  proof (cases r)
    case (Inl e)
    with pl c show ?thesis by (simp add: main_def get_env_var_optional emit_def Let_def)
  next
    case (Inr u)
    with pl c show ?thesis by (simp add: main_def get_env_var_optional Let_def)
  qed
qed

text \<open>
  C8. The block that \<open>main\<close> enters once the connection is open always ends with the
  connection closed, and closing is the last thing it does: when \<open>ensure_table_exists\<close>
  raises, and when \<open>upsert_stock_data\<close> raises, the exception leaves the block with the
  world in which the connection has been closed, as the result does when both return. A
  connection that \<open>get_db_connection\<close> returns is open; in a run of the pipeline that
  reaches that point the connection is closed at the end, whatever the outcome; and no
  run of \<open>main\<close> leaves a connection open.
\<close>

theorem connection_closed_on_every_path:
  "conn_status (snd (with_connection rows w)) = Closed
   \<and> (\<exists>evs. events (snd (with_connection rows w)) = evs @ [DbClose])
   \<and> (\<forall>e. fst (ensure_table_exists w) = Inl e \<longrightarrow>
         with_connection rows w = (Inl e, close_conn (snd (ensure_table_exists w))))
   \<and> (\<forall>e. fst (ensure_table_exists w) = Inr ()
           \<and> fst (upsert_stock_data rows (snd (ensure_table_exists w))) = Inl e \<longrightarrow>
         with_connection rows w
           = (Inl e, close_conn (snd (upsert_stock_data rows (snd (ensure_table_exists w))))))
   \<and> (fst (ensure_table_exists w) = Inr ()
         \<and> fst (upsert_stock_data rows (snd (ensure_table_exists w))) = Inr () \<longrightarrow>
       with_connection rows w
         = (Inr (), close_conn (snd (upsert_stock_data rows (snd (ensure_table_exists w))))))
   \<and> (fst (get_db_connection w) = Inr () \<longrightarrow> conn_status (snd (get_db_connection w)) = Open)
   \<and> (\<forall>ts w1 evs w2.
         fetch_stock_data symbol w = (Inr ts, w1)
         \<and> parse_time_series symbol ts = (evs, Inr rows)
         \<and> get_db_connection (w1\<lparr>events := events w1 @ evs\<rparr>) = (Inr (), w2) \<longrightarrow>
         conn_status w2 = Open \<and> conn_status (snd (pipeline symbol w)) = Closed
         \<and> fst (pipeline symbol w) = fst (with_connection rows w2))
   \<and> (conn_status w \<noteq> Open \<longrightarrow> conn_status (snd (main w)) \<noteq> Open)"
proof -
  have a: "\<forall>e. fst (ensure_table_exists w) = Inl e \<longrightarrow>
         with_connection rows w = (Inl e, close_conn (snd (ensure_table_exists w)))"
    by (simp add: with_connection_cases split: prod.splits sum.splits)
  have b: "\<forall>e. fst (ensure_table_exists w) = Inr ()
           \<and> fst (upsert_stock_data rows (snd (ensure_table_exists w))) = Inl e \<longrightarrow>
         with_connection rows w
           = (Inl e, close_conn (snd (upsert_stock_data rows (snd (ensure_table_exists w)))))"
    by (simp add: with_connection_cases split: prod.splits sum.splits)
  have c: "fst (ensure_table_exists w) = Inr ()
         \<and> fst (upsert_stock_data rows (snd (ensure_table_exists w))) = Inr () \<longrightarrow>
       with_connection rows w
         = (Inr (), close_conn (snd (upsert_stock_data rows (snd (ensure_table_exists w)))))"
    by (simp add: with_connection_cases split: prod.splits sum.splits)
  have d: "fst (get_db_connection w) = Inr () \<longrightarrow> conn_status (snd (get_db_connection w)) = Open"
    using get_db_connection_conn [of w] by auto
  have e: "\<forall>ts w1 evs w2.
         fetch_stock_data symbol w = (Inr ts, w1)
         \<and> parse_time_series symbol ts = (evs, Inr rows)
         \<and> get_db_connection (w1\<lparr>events := events w1 @ evs\<rparr>) = (Inr (), w2) \<longrightarrow>
         conn_status w2 = Open \<and> conn_status (snd (pipeline symbol w)) = Closed
         \<and> fst (pipeline symbol w) = fst (with_connection rows w2)"
    using pipeline_opened by blast
  have f: "conn_status w \<noteq> Open \<longrightarrow> conn_status (snd (main w)) \<noteq> Open"
    using main_conn by blast
  from with_connection_closed [of rows w] a b c d e f show ?thesis by blast
qed


lemmas run_eval = main_def pipeline_def fetch_stock_data_def check_payload_def contains_def
  get_env_var_def getenv_def falsy_def the_str_def emit_def get_db_connection_def
  with_connection_def ensure_table_exists_def close_conn_def upsert_stock_data_def
  upsert_failed_def execute_values_def execute_def commit_def rollback_def run_statement_def
  key_of_def vals_of_def is_psycopg2_error_def paginate_single example_row_def
  example_world_def example_env_def open_world_def

text \<open>
  A whole run on a world where nothing fails: the table did not exist, and the run
  leaves it committed with the one row, the connection closed.
\<close>

lemma main_example:
  "fst (main (example_world (JObject [(''Time Series (Daily)'',
        JObject [daily ''2024-01-02'' ''370.0'' ''375.5'' ''369.0'' ''374.0'' ''21000000''])])))
     = Inr ()
   \<and> conn_status (snd (main (example_world (JObject [(''Time Series (Daily)'',
        JObject [daily ''2024-01-02'' ''370.0'' ''375.5'' ''369.0'' ''374.0'' ''21000000''])]))))
     = Closed
   \<and> committed (snd (main (example_world (JObject [(''Time Series (Daily)'',
        JObject [daily ''2024-01-02'' ''370.0'' ''375.5'' ''369.0'' ''374.0'' ''21000000''])]))))
     = Some [((''MSFT'', Date 2024 1 2),
              (Finite 370, Finite (751 / 2), Finite 369, Finite 374, 21000000), 1)]"
  by (simp add: run_eval entry_defs strptime_2024_01_02 float_examples Let_def)

theorem connection_closed_on_every_path_witness:
  "fst (ensure_table_exists
          ((open_world [])\<lparr>faults := (\<lambda>n. if n = 0 then Some OperationalError else None)\<rparr>))
     = Inl (Psycopg2Error OperationalError)
   \<and> fst (with_connection [example_row]
          ((open_world [])\<lparr>faults := (\<lambda>n. if n = 0 then Some OperationalError else None)\<rparr>))
     = Inl (Psycopg2Error OperationalError)
   \<and> conn_status (snd (with_connection [example_row]
          ((open_world [])\<lparr>faults := (\<lambda>n. if n = 0 then Some OperationalError else None)\<rparr>)))
     = Closed
   \<and> fst (upsert_stock_data [example_row] (snd (ensure_table_exists
          ((open_world [])\<lparr>faults := (\<lambda>n. if n = 1 then Some OperationalError else None)\<rparr>))))
     = Inl (Psycopg2Error OperationalError)
   \<and> fst (with_connection [example_row]
          ((open_world [])\<lparr>faults := (\<lambda>n. if n = 1 then Some OperationalError else None)\<rparr>))
     = Inl (Psycopg2Error OperationalError)
   \<and> events (snd (with_connection [example_row]
          ((open_world [])\<lparr>faults := (\<lambda>n. if n = 1 then Some OperationalError else None)\<rparr>)))
     = [DbExecute CreateTable, DbExecute (InsertRows [example_row]), DbRollback,
        Log ERROR ''Failed to upsert data: %s'' [ArgErr (Psycopg2Error OperationalError)],
        DbClose]
   \<and> conn_status (snd (with_connection [example_row]
          ((open_world [])\<lparr>faults := (\<lambda>n. if n = 1 then Some OperationalError else None)\<rparr>)))
     = Closed
   \<and> fst (with_connection [example_row] (open_world [])) = Inr ()
   \<and> conn_status (snd (with_connection [example_row] (open_world []))) = Closed
   \<and> fst (get_db_connection (example_world JNull)) = Inr ()
   \<and> conn_status (snd (get_db_connection (example_world JNull))) = Open
   \<and> conn_status (example_world JNull) \<noteq> Open
   \<and> conn_status (snd (main (example_world JNull))) \<noteq> Open"
proof -
  let ?wa = "(open_world [])\<lparr>faults := (\<lambda>n. if n = 0 then Some OperationalError else None)\<rparr>"
  let ?wb = "(open_world [])\<lparr>faults := (\<lambda>n. if n = 1 then Some OperationalError else None)\<rparr>"
  note ta = connection_closed_on_every_path [of "[example_row]" ?wa "''MSFT''"]
  note tb = connection_closed_on_every_path [of "[example_row]" ?wb "''MSFT''"]
  note tc = connection_closed_on_every_path [of "[example_row]" "open_world []" "''MSFT''"]
  note td = connection_closed_on_every_path [of "[example_row]" "example_world JNull" "''MSFT''"]
  have a1: "fst (ensure_table_exists ?wa) = Inl (Psycopg2Error OperationalError)"
    by (simp add: run_eval)
  from ta a1 have a2: "fst (with_connection [example_row] ?wa)
      = Inl (Psycopg2Error OperationalError)"
    by simp
  from ta have a3: "conn_status (snd (with_connection [example_row] ?wa)) = Closed"
    by (rule conjunct1)
  have b0: "fst (ensure_table_exists ?wb) = Inr ()"
    by (simp add: run_eval)
  have b1: "fst (upsert_stock_data [example_row] (snd (ensure_table_exists ?wb)))
      = Inl (Psycopg2Error OperationalError)"
    by (simp add: run_eval)
  from tb b0 b1 have b2: "fst (with_connection [example_row] ?wb)
      = Inl (Psycopg2Error OperationalError)"
    by simp
  have b3: "events (snd (with_connection [example_row] ?wb))
      = [DbExecute CreateTable, DbExecute (InsertRows [example_row]), DbRollback,
         Log ERROR ''Failed to upsert data: %s'' [ArgErr (Psycopg2Error OperationalError)],
         DbClose]"
    by (simp add: run_eval)
  from tb have b4: "conn_status (snd (with_connection [example_row] ?wb)) = Closed"
    by (rule conjunct1)
  have c1: "fst (with_connection [example_row] (open_world [])) = Inr ()"
    by (simp add: run_eval)
  from tc have c2: "conn_status (snd (with_connection [example_row] (open_world []))) = Closed"
    by (rule conjunct1)
  have d1: "fst (get_db_connection (example_world JNull)) = Inr ()"
    by (simp add: run_eval)
  from td d1 have d2: "conn_status (snd (get_db_connection (example_world JNull))) = Open"
    by simp
  have d3: "conn_status (example_world JNull) \<noteq> Open"
    by (simp add: example_world_def)
  from td d3 have d4: "conn_status (snd (main (example_world JNull))) \<noteq> Open"
    by simp
  from a1 a2 a3 b1 b2 b3 b4 c1 c2 d1 d2 d3 d4 show ?thesis
    by (intro conjI)
qed


end
